theory Spec2Isabelle
  imports Complex_Main "HOL-Library.Sublist"
begin

section \<open>Values exchanged with the inference service\<close>

text \<open>
  Both screens (\<^verbatim>\<open>Index\<close> in \<^verbatim>\<open>frontend/src/pages/Index.tsx\<close>, the styled variant, and
  \<^verbatim>\<open>App\<close>, the plain variant) treat the parsed response body as untyped data. A parsed JSON
  value is modelled as a datatype; an object is the list of its members (a parsed object
  has each key once), read with \<open>map_of\<close>. A number is the exact rational value of the
  finite IEEE-754 double that parsing produced.
\<close>

datatype json =
    JNull
  | JBool bool
  | JNum rat
  | JStr string
  | JArr "json list"
  | JObj "(string \<times> json) list"

text \<open>The only exception the modelled code can raise is a \<^verbatim>\<open>TypeError\<close>.\<close>

datatype js_error = TypeError

text \<open>
  \<^verbatim>\<open>v.k\<close> for a parsed value \<open>v\<close>: reading a property of \<^verbatim>\<open>null\<close> throws; an object yields
  the member or \<^verbatim>\<open>undefined\<close> (\<open>None\<close>); every other value yields \<^verbatim>\<open>undefined\<close> for the
  keys used by the screens (none of them is a built-in property of a string, number,
  boolean or array).
\<close>

fun read :: "json \<Rightarrow> string \<Rightarrow> js_error + json option" where
  "read JNull k = Inl TypeError"
| "read (JObj kvs) k = Inr (map_of kvs k)"
| "read v k = Inr None"

text \<open>The same read when the receiver may itself be \<^verbatim>\<open>undefined\<close>.\<close>

fun read_of :: "json option \<Rightarrow> string \<Rightarrow> js_error + json option" where
  "read_of None k = Inl TypeError"
| "read_of (Some v) k = read v k"

text \<open>JavaScript truthiness of a value that may be \<^verbatim>\<open>undefined\<close>.\<close>

fun truthy :: "json option \<Rightarrow> bool" where
  "truthy None = False"
| "truthy (Some JNull) = False"
| "truthy (Some (JBool b)) = b"
| "truthy (Some (JNum x)) = (x \<noteq> 0)"
| "truthy (Some (JStr s)) = (s \<noteq> [])"
| "truthy (Some (JArr xs)) = True"
| "truthy (Some (JObj kvs)) = True"

text \<open>\<^verbatim>\<open>a || d\<close> where \<open>d\<close> is a value.\<close>

fun or_else :: "json option \<Rightarrow> json \<Rightarrow> json" where
  "or_else None d = d"
| "or_else (Some v) d = (if truthy (Some v) then v else d)"

section \<open>Numbers and their fixed-point rendering\<close>







text \<open>The decimal digits of a non-negative integer.\<close>

function digits :: "int \<Rightarrow> string" where
  "digits n =
     (if n < 10 then [''0123456789'' ! nat n]
      else digits (n div 10) @ [''0123456789'' ! nat (n mod 10)])"
  by pat_completeness auto
termination
  by (relation "measure nat") auto

declare digits.simps [simp del]

text \<open>
  \<^verbatim>\<open>x.toFixed(f)\<close> for a finite number, as the language defines it: the integer \<open>n\<close> for
  which \<open>n / 10\<^sup>f\<close> is closest to the exact value of \<open>\<bar>x\<bar>\<close> (the larger \<open>n\<close> on a tie),
  written with \<open>f\<close> digits after the point and the sign in front. From \<open>10\<^sup>2\<^sup>1\<close> on the
  language switches to exponent notation, whose digits are not modelled.
\<close>

datatype numtext = Fixed string | Exponential rat

definition toFixed :: "nat \<Rightarrow> rat \<Rightarrow> numtext" where
  "toFixed f x =
     (if 10 ^ 21 \<le> \<bar>x\<bar> then Exponential x
      else let a = \<bar>x\<bar>;
               n = \<lfloor>a * 10 ^ f + 1 / 2\<rfloor>;
               m = digits n;
               m = (if f \<noteq> 0 \<and> length m \<le> f
                    then replicate (f + 1 - length m) CHR ''0'' @ m else m);
               k = length m;
               m = (if f \<noteq> 0 then take (k - f) m @ ''.'' @ drop (k - f) m else m)
           in Fixed (if x < 0 then ''-'' @ m else m))"

text \<open>
  The call \<^verbatim>\<open>v.toFixed(f)\<close> on a value read from the response: only a number has the
  method; on \<^verbatim>\<open>undefined\<close>, \<^verbatim>\<open>null\<close> and every other value the call throws.
\<close>

fun call_toFixed :: "nat \<Rightarrow> json option \<Rightarrow> js_error + numtext" where
  "call_toFixed f (Some (JNum x)) = Inr (toFixed f x)"
| "call_toFixed f v = Inl TypeError"

section \<open>Files, requests and the screen state\<close>

record File =
  name :: string
  type :: string
  bytes :: "nat list"

datatype blob_url = BlobUrl nat

datatype request = Request string string "(string \<times> File) list"

datatype toast = ToastError string | ToastSuccess string

text \<open>
  What \<^verbatim>\<open>await fetch(...)\<close> followed by \<^verbatim>\<open>await response.json()\<close> can give: the fetch
  rejects, or the body is not JSON and \<^verbatim>\<open>json()\<close> rejects, or a parsed value.
\<close>

datatype fetched = NetworkError | NotJson | Json json

datatype mode = Caption | Action | Combined

text \<open>
  The seven \<^verbatim>\<open>useState\<close> cells of the component (\<open>isDragging\<close> exists in \<^verbatim>\<open>Index\<close> only;
  \<^verbatim>\<open>App\<close> never reads or writes it), followed by the parts of the browser the handlers act
  on: \<open>fileInputRef\<close> is \<open>None\<close> while \<^verbatim>\<open>fileInputRef.current\<close> is \<^verbatim>\<open>null\<close> and \<open>Some v\<close> while
  the input element is mounted with value \<open>v\<close>; \<open>objectUrls\<close> is the registry of
  \<^verbatim>\<open>URL.createObjectURL\<close>, where the handle \<open>BlobUrl i\<close> resolves to entry \<open>i\<close> (nothing is
  ever revoked); \<open>requests\<close> and \<open>toasts\<close> record the network calls issued and the
  notifications raised, in order. \<^verbatim>\<open>null\<close> in a state cell is \<open>None\<close>.
\<close>

record screen =
  selectedFile :: "File option"
  previewUrl :: "blob_url option"
  isLoading :: bool
  error :: "json option"
  results :: "json option"
  apiHealth :: bool
  isDragging :: bool
  fileInputRef :: "string option"
  objectUrls :: "File list"
  requests :: "request list"
  toasts :: "toast list"

definition initial :: screen where
  "initial = \<lparr>selectedFile = None, previewUrl = None, isLoading = False, error = None,
     results = None, apiHealth = False, isDragging = False, fileInputRef = Some [],
     objectUrls = [], requests = [], toasts = []\<rparr>"

definition Index_API_BASE_URL :: string where
  "Index_API_BASE_URL = ''https://ahsanaftab-action-recognition-and-captioning.hf.space''"

definition App_API_BASE_URL :: string where
  "App_API_BASE_URL = ''http://localhost:5000''"

fun endpoint :: "mode \<Rightarrow> string" where
  "endpoint Caption = ''/api/caption''"
| "endpoint Action = ''/api/action''"
| "endpoint Combined = ''/api/combined''"

section \<open>Handlers of the styled variant (Index)\<close>

definition Index_processFile :: "File \<Rightarrow> screen \<Rightarrow> screen" where
  "Index_processFile f s =
     s\<lparr>selectedFile := Some f, error := None, results := None,
       previewUrl := Some (BlobUrl (length (objectUrls s))),
       objectUrls := objectUrls s @ [f]\<rparr>"

definition Index_handleImageSelect :: "File option \<Rightarrow> screen \<Rightarrow> screen" where
  "Index_handleImageSelect picked s =
     (case picked of
        None \<Rightarrow> s
      | Some f \<Rightarrow>
          if \<not> prefix ''image/'' (type f)
          then s\<lparr>error := Some (JStr ''Please select a valid image file''),
                 toasts := toasts s @ [ToastError ''Invalid file type'']\<rparr>
          else Index_processFile f s)"

definition Index_handleDrop :: "File option \<Rightarrow> screen \<Rightarrow> screen" where
  "Index_handleDrop dropped s =
     (let s1 = s\<lparr>isDragging := False\<rparr> in
      case dropped of
        Some f \<Rightarrow>
          if prefix ''image/'' (type f) then Index_processFile f s1
          else s1\<lparr>toasts := toasts s1 @ [ToastError ''Please drop a valid image file'']\<rparr>
      | None \<Rightarrow> s1\<lparr>toasts := toasts s1 @ [ToastError ''Please drop a valid image file'']\<rparr>)"

text \<open>
  An asynchronous handler is split where it awaits the network: the part that runs when
  the user triggers it, and the part that runs when the outcome arrives. The handler as a
  whole is their composition.
\<close>

definition sampleImageUrl :: string where
  "sampleImageUrl = ''https://images.unsplash.com/photo-1551963831-b3b1ca40c98e?w=400''"

definition Index_loadSampleImage_begin :: "screen \<Rightarrow> screen" where
  "Index_loadSampleImage_begin s =
     s\<lparr>isLoading := True, requests := requests s @ [Request ''GET'' sampleImageUrl []]\<rparr>"

definition Index_loadSampleImage_end :: "nat list option \<Rightarrow> screen \<Rightarrow> screen" where
  "Index_loadSampleImage_end blob s =
     (case blob of
        Some b \<Rightarrow> Index_processFile \<lparr>name = ''sample.jpg'', type = ''image/jpeg'', bytes = b\<rparr> s
      | None \<Rightarrow> s\<lparr>error := Some (JStr ''Failed to load sample image''),
                   toasts := toasts s @ [ToastError ''Failed to load sample'']\<rparr>)
     \<lparr>isLoading := False\<rparr>"

definition Index_loadSampleImage :: "nat list option \<Rightarrow> screen \<Rightarrow> screen" where
  "Index_loadSampleImage blob s = Index_loadSampleImage_end blob (Index_loadSampleImage_begin s)"

definition Index_analyzeImage_begin :: "mode \<Rightarrow> File \<Rightarrow> screen \<Rightarrow> screen" where
  "Index_analyzeImage_begin m f s =
     s\<lparr>isLoading := True, error := None,
       requests := requests s @ [Request ''POST'' (Index_API_BASE_URL @ endpoint m) [(''image'', f)]]\<rparr>"

definition Index_analyzeImage_catch :: "screen \<Rightarrow> screen" where
  "Index_analyzeImage_catch s =
     s\<lparr>error := Some (JStr ''Failed to analyze image''),
       toasts := toasts s @ [ToastError ''Connection error'']\<rparr>"

definition Index_analyzeImage_end :: "fetched \<Rightarrow> screen \<Rightarrow> screen" where
  "Index_analyzeImage_end outcome s =
     (case outcome of
        NetworkError \<Rightarrow> Index_analyzeImage_catch s
      | NotJson \<Rightarrow> Index_analyzeImage_catch s
      | Json data \<Rightarrow>
          (case read data ''success'' of
             Inl e \<Rightarrow> Index_analyzeImage_catch s
           | Inr success \<Rightarrow>
               if truthy success
               then s\<lparr>results := Some data,
                      toasts := toasts s @ [ToastSuccess ''Analysis complete!'']\<rparr>
               else (case read data ''error'' of
                       Inl e \<Rightarrow> Index_analyzeImage_catch s
                     | Inr err \<Rightarrow>
                         s\<lparr>error := Some (or_else err (JStr ''Analysis failed'')),
                           toasts := toasts s @ [ToastError ''Analysis failed'']\<rparr>)))
     \<lparr>isLoading := False\<rparr>"

definition Index_analyzeImage :: "mode \<Rightarrow> fetched \<Rightarrow> screen \<Rightarrow> screen" where
  "Index_analyzeImage m outcome s =
     (case selectedFile s of
        None \<Rightarrow> s\<lparr>error := Some (JStr ''Please select an image first'')\<rparr>
      | Some f \<Rightarrow> Index_analyzeImage_end outcome (Index_analyzeImage_begin m f s))"

definition Index_resetAnalysis :: "screen \<Rightarrow> screen" where
  "Index_resetAnalysis s =
     (let s1 = s\<lparr>selectedFile := None, previewUrl := None, results := None, error := None\<rparr> in
      case fileInputRef s1 of
        Some v \<Rightarrow> s1\<lparr>fileInputRef := Some []\<rparr>
      | None \<Rightarrow> s1)"

definition Index_checkHealth_begin :: "screen \<Rightarrow> screen" where
  "Index_checkHealth_begin s =
     s\<lparr>requests := requests s @ [Request ''GET'' (Index_API_BASE_URL @ ''/health'') []]\<rparr>"

definition Index_checkHealth_end :: "fetched \<Rightarrow> screen \<Rightarrow> screen" where
  "Index_checkHealth_end outcome s =
     (case outcome of
        NetworkError \<Rightarrow> s\<lparr>apiHealth := False\<rparr>
      | NotJson \<Rightarrow> s\<lparr>apiHealth := False\<rparr>
      | Json data \<Rightarrow>
          (case read data ''status'' of
             Inl e \<Rightarrow> s\<lparr>apiHealth := False\<rparr>
           | Inr status \<Rightarrow>
               if status = Some (JStr ''healthy'') then s\<lparr>apiHealth := True\<rparr> else s))"

definition Index_checkHealth :: "fetched \<Rightarrow> screen \<Rightarrow> screen" where
  "Index_checkHealth outcome s = Index_checkHealth_end outcome (Index_checkHealth_begin s)"

text \<open>
  The effect with the empty dependency list runs the probe after the first render, on the
  initial state.
\<close>

definition Index_mount :: "fetched \<Rightarrow> screen" where
  "Index_mount outcome = Index_checkHealth outcome initial"

section \<open>Handlers of the plain variant (App)\<close>

text \<open>
  The plain variant has the same handlers without notifications and without drag and
  drop; its \<^verbatim>\<open>console\<close> output is not modelled. The \<^verbatim>\<open>default: return\<close> of its endpoint
  switch is not reachable: the three buttons pass the three modes of \<open>mode\<close>.
\<close>

definition App_processFile :: "File \<Rightarrow> screen \<Rightarrow> screen" where
  "App_processFile f s =
     s\<lparr>selectedFile := Some f, error := None, results := None,
       previewUrl := Some (BlobUrl (length (objectUrls s))),
       objectUrls := objectUrls s @ [f]\<rparr>"

definition App_handleImageSelect :: "File option \<Rightarrow> screen \<Rightarrow> screen" where
  "App_handleImageSelect picked s =
     (case picked of
        None \<Rightarrow> s
      | Some f \<Rightarrow>
          if \<not> prefix ''image/'' (type f)
          then s\<lparr>error := Some (JStr ''Please select a valid image file'')\<rparr>
          else App_processFile f s)"

definition App_loadSampleImage_begin :: "screen \<Rightarrow> screen" where
  "App_loadSampleImage_begin s =
     s\<lparr>isLoading := True, requests := requests s @ [Request ''GET'' sampleImageUrl []]\<rparr>"

definition App_loadSampleImage_end :: "nat list option \<Rightarrow> screen \<Rightarrow> screen" where
  "App_loadSampleImage_end blob s =
     (case blob of
        Some b \<Rightarrow> App_processFile \<lparr>name = ''sample.jpg'', type = ''image/jpeg'', bytes = b\<rparr> s
      | None \<Rightarrow> s\<lparr>error := Some (JStr ''Failed to load sample image'')\<rparr>)
     \<lparr>isLoading := False\<rparr>"

definition App_loadSampleImage :: "nat list option \<Rightarrow> screen \<Rightarrow> screen" where
  "App_loadSampleImage blob s = App_loadSampleImage_end blob (App_loadSampleImage_begin s)"

definition App_analyzeImage_begin :: "mode \<Rightarrow> File \<Rightarrow> screen \<Rightarrow> screen" where
  "App_analyzeImage_begin m f s =
     s\<lparr>isLoading := True, error := None,
       requests := requests s @ [Request ''POST'' (App_API_BASE_URL @ endpoint m) [(''image'', f)]]\<rparr>"

definition App_analyzeImage_catch :: "screen \<Rightarrow> screen" where
  "App_analyzeImage_catch s =
     s\<lparr>error := Some (JStr ''Failed to analyze image. Ensure Flask server is running.'')\<rparr>"

definition App_analyzeImage_end :: "fetched \<Rightarrow> screen \<Rightarrow> screen" where
  "App_analyzeImage_end outcome s =
     (case outcome of
        NetworkError \<Rightarrow> App_analyzeImage_catch s
      | NotJson \<Rightarrow> App_analyzeImage_catch s
      | Json data \<Rightarrow>
          (case read data ''success'' of
             Inl e \<Rightarrow> App_analyzeImage_catch s
           | Inr success \<Rightarrow>
               if truthy success
               then s\<lparr>results := Some data\<rparr>
               else (case read data ''error'' of
                       Inl e \<Rightarrow> App_analyzeImage_catch s
                     | Inr err \<Rightarrow> s\<lparr>error := Some (or_else err (JStr ''Analysis failed''))\<rparr>)))
     \<lparr>isLoading := False\<rparr>"

definition App_analyzeImage :: "mode \<Rightarrow> fetched \<Rightarrow> screen \<Rightarrow> screen" where
  "App_analyzeImage m outcome s =
     (case selectedFile s of
        None \<Rightarrow> s\<lparr>error := Some (JStr ''Please select an image first'')\<rparr>
      | Some f \<Rightarrow> App_analyzeImage_end outcome (App_analyzeImage_begin m f s))"

definition App_resetAnalysis :: "screen \<Rightarrow> screen" where
  "App_resetAnalysis s =
     (let s1 = s\<lparr>selectedFile := None, previewUrl := None, results := None, error := None\<rparr> in
      case fileInputRef s1 of
        Some v \<Rightarrow> s1\<lparr>fileInputRef := Some []\<rparr>
      | None \<Rightarrow> s1)"

definition App_checkHealth_begin :: "screen \<Rightarrow> screen" where
  "App_checkHealth_begin s =
     s\<lparr>requests := requests s @ [Request ''GET'' (App_API_BASE_URL @ ''/health'') []]\<rparr>"

definition App_checkHealth_end :: "fetched \<Rightarrow> screen \<Rightarrow> screen" where
  "App_checkHealth_end outcome s =
     (case outcome of
        NetworkError \<Rightarrow> s\<lparr>apiHealth := False\<rparr>
      | NotJson \<Rightarrow> s\<lparr>apiHealth := False\<rparr>
      | Json data \<Rightarrow>
          (case read data ''status'' of
             Inl e \<Rightarrow> s\<lparr>apiHealth := False\<rparr>
           | Inr status \<Rightarrow>
               if status = Some (JStr ''healthy'') then s\<lparr>apiHealth := True\<rparr> else s))"

definition App_checkHealth :: "fetched \<Rightarrow> screen \<Rightarrow> screen" where
  "App_checkHealth outcome s = App_checkHealth_end outcome (App_checkHealth_begin s)"

definition App_mount :: "fetched \<Rightarrow> screen" where
  "App_mount outcome = App_checkHealth outcome initial"

section \<open>Everything the user can trigger after mount\<close>

text \<open>
  One event per handler wired into the markup, with the outcome of the network call the
  handler awaits. \<open>DismissError\<close> is the inline \<^verbatim>\<open>setError(null)\<close> of the error card;
  \<open>DragOver\<close> and \<open>DragLeave\<close> are the inline handlers of the drop zone. The steps ignore
  which controls are disabled or hidden, so every sequence the user can produce is a
  sequence of events.
\<close>

datatype event =
    ImageSelect "File option"
  | Drop "File option"
  | DragOver
  | DragLeave
  | LoadSample "nat list option"
  | Analyze mode fetched
  | Reset
  | DismissError

fun Index_step :: "event \<Rightarrow> screen \<Rightarrow> screen" where
  "Index_step (ImageSelect picked) s = Index_handleImageSelect picked s"
| "Index_step (Drop dropped) s = Index_handleDrop dropped s"
| "Index_step DragOver s = s\<lparr>isDragging := True\<rparr>"
| "Index_step DragLeave s = s\<lparr>isDragging := False\<rparr>"
| "Index_step (LoadSample blob) s = Index_loadSampleImage blob s"
| "Index_step (Analyze m outcome) s = Index_analyzeImage m outcome s"
| "Index_step Reset s = Index_resetAnalysis s"
| "Index_step DismissError s = s\<lparr>error := None\<rparr>"

text \<open>The plain variant has no drop zone: the drag events reach no handler.\<close>

fun App_step :: "event \<Rightarrow> screen \<Rightarrow> screen" where
  "App_step (ImageSelect picked) s = App_handleImageSelect picked s"
| "App_step (Drop dropped) s = s"
| "App_step DragOver s = s"
| "App_step DragLeave s = s"
| "App_step (LoadSample blob) s = App_loadSampleImage blob s"
| "App_step (Analyze m outcome) s = App_analyzeImage m outcome s"
| "App_step Reset s = App_resetAnalysis s"
| "App_step DismissError s = s\<lparr>error := None\<rparr>"

fun Index_run :: "event list \<Rightarrow> screen \<Rightarrow> screen" where
  "Index_run [] s = s"
| "Index_run (e # es) s = Index_run es (Index_step e s)"

fun App_run :: "event list \<Rightarrow> screen \<Rightarrow> screen" where
  "App_run [] s = s"
| "App_run (e # es) s = App_run es (App_step e s)"

section \<open>The result markup\<close>

text \<open>
  What the component hands to the framework for a stored result: the caption card and the
  action card with its ranked rows, holding the values exactly as the markup embeds them
  (static text and styling left out). An exception thrown while the markup is built is the
  \<open>Inl\<close> result.
\<close>

record row =
  row_rank :: nat
  row_class :: "json option"
  row_value :: numtext
  row_width :: "json option"

record action_card =
  card_name :: "json option"
  card_confidence :: numtext
  card_predictions :: "row list"

record results_view =
  view_caption :: "json option"
  view_action :: "action_card option"

text \<open>
  The conditional \<^verbatim>\<open>results.action ? results.action.k : results.k\<close>, which both variants
  repeat for each of the three action fields.
\<close>

definition actionField :: "json \<Rightarrow> string \<Rightarrow> js_error + json option" where
  "actionField r k =
     (case read r ''action'' of
        Inl e \<Rightarrow> Inl e
      | Inr a \<Rightarrow> if truthy a then read_of a k else read r k)"

text \<open>The guard of the action card, \<^verbatim>\<open>results.action || results.predicted_action\<close>.\<close>

definition showsAction :: "json \<Rightarrow> js_error + bool" where
  "showsAction r =
     (case read r ''action'' of
        Inl e \<Rightarrow> Inl e
      | Inr a \<Rightarrow>
          if truthy a then Inr True
          else (case read r ''predicted_action'' of Inl e \<Rightarrow> Inl e | Inr p \<Rightarrow> Inr (truthy p)))"

text \<open>\<^verbatim>\<open>xs.map((pred, index) => ...)\<close>: in order, the first exception ends it.\<close>

fun map_indexed :: "(json \<Rightarrow> nat \<Rightarrow> js_error + row) \<Rightarrow> nat \<Rightarrow> json list \<Rightarrow> js_error + row list" where
  "map_indexed f i [] = Inr []"
| "map_indexed f i (x # xs) =
     (case f x i of
        Inl e \<Rightarrow> Inl e
      | Inr y \<Rightarrow> (case map_indexed f (Suc i) xs of Inl e \<Rightarrow> Inl e | Inr ys \<Rightarrow> Inr (y # ys)))"

text \<open>
  \<^verbatim>\<open>v.map(f)\<close> on a value read from the response: only an array has the method.
\<close>

fun call_map :: "(json \<Rightarrow> nat \<Rightarrow> js_error + row) \<Rightarrow> json option \<Rightarrow> js_error + row list" where
  "call_map f (Some (JArr xs)) = map_indexed f 0 xs"
| "call_map f v = Inl TypeError"

text \<open>
  \<^verbatim>\<open>v.slice(0, 5)\<close>: arrays and strings have the method (a string yields a string, on
  which the following \<^verbatim>\<open>map\<close> then throws); on everything else the call throws.
\<close>

fun call_slice_0_5 :: "json option \<Rightarrow> js_error + json option" where
  "call_slice_0_5 (Some (JArr xs)) = Inr (Some (JArr (take 5 xs)))"
| "call_slice_0_5 (Some (JStr s)) = Inr (Some (JStr (take 5 s)))"
| "call_slice_0_5 v = Inl TypeError"

definition Index_predictionRow :: "json \<Rightarrow> nat \<Rightarrow> js_error + row" where
  "Index_predictionRow pred index =
     (case read pred ''class'' of
        Inl e \<Rightarrow> Inl e
      | Inr cls \<Rightarrow>
          (case read pred ''probability'' of
             Inl e \<Rightarrow> Inl e
           | Inr p \<Rightarrow>
               (case call_toFixed 1 p of
                  Inl e \<Rightarrow> Inl e
                | Inr txt \<Rightarrow>
                    Inr \<lparr>row_rank = index + 1, row_class = cls, row_value = txt, row_width = p\<rparr>)))"

definition Index_actionCard :: "json \<Rightarrow> js_error + action_card" where
  "Index_actionCard r =
     (case actionField r ''predicted_action'' of
        Inl e \<Rightarrow> Inl e
      | Inr nm \<Rightarrow>
          (case actionField r ''confidence'' of
             Inl e \<Rightarrow> Inl e
           | Inr c \<Rightarrow>
               (case call_toFixed 1 c of
                  Inl e \<Rightarrow> Inl e
                | Inr txt \<Rightarrow>
                    (case actionField r ''all_predictions'' of
                       Inl e \<Rightarrow> Inl e
                     | Inr ps \<Rightarrow>
                         (case call_slice_0_5 ps of
                            Inl e \<Rightarrow> Inl e
                          | Inr firstFive \<Rightarrow>
                              (case call_map Index_predictionRow firstFive of
                                 Inl e \<Rightarrow> Inl e
                               | Inr rows \<Rightarrow>
                                   Inr \<lparr>card_name = nm, card_confidence = txt,
                                        card_predictions = rows\<rparr>))))))"

definition Index_results :: "json \<Rightarrow> js_error + results_view" where
  "Index_results r =
     (case read r ''caption'' of
        Inl e \<Rightarrow> Inl e
      | Inr c \<Rightarrow>
          (case showsAction r of
             Inl e \<Rightarrow> Inl e
           | Inr shown \<Rightarrow>
               if shown
               then (case Index_actionCard r of
                       Inl e \<Rightarrow> Inl e
                     | Inr actionCard \<Rightarrow>
                         Inr \<lparr>view_caption = (if truthy c then c else None),
                              view_action = Some actionCard\<rparr>)
               else Inr \<lparr>view_caption = (if truthy c then c else None),
                         view_action = None\<rparr>))"

definition App_predictionRow :: "json \<Rightarrow> nat \<Rightarrow> js_error + row" where
  "App_predictionRow pred index =
     (case read pred ''class'' of
        Inl e \<Rightarrow> Inl e
      | Inr cls \<Rightarrow>
          (case read pred ''probability'' of
             Inl e \<Rightarrow> Inl e
           | Inr p \<Rightarrow>
               (case call_toFixed 2 p of
                  Inl e \<Rightarrow> Inl e
                | Inr txt \<Rightarrow>
                    Inr \<lparr>row_rank = index + 1, row_class = cls, row_value = txt, row_width = p\<rparr>)))"

definition App_actionCard :: "json \<Rightarrow> js_error + action_card" where
  "App_actionCard r =
     (case actionField r ''predicted_action'' of
        Inl e \<Rightarrow> Inl e
      | Inr nm \<Rightarrow>
          (case actionField r ''confidence'' of
             Inl e \<Rightarrow> Inl e
           | Inr c \<Rightarrow>
               (case call_toFixed 2 c of
                  Inl e \<Rightarrow> Inl e
                | Inr txt \<Rightarrow>
                    (case actionField r ''all_predictions'' of
                       Inl e \<Rightarrow> Inl e
                     | Inr ps \<Rightarrow>
                         (case call_map App_predictionRow ps of
                            Inl e \<Rightarrow> Inl e
                          | Inr rows \<Rightarrow>
                              Inr \<lparr>card_name = nm, card_confidence = txt,
                                   card_predictions = rows\<rparr>)))))"

definition App_results :: "json \<Rightarrow> js_error + results_view" where
  "App_results r =
     (case read r ''caption'' of
        Inl e \<Rightarrow> Inl e
      | Inr c \<Rightarrow>
          (case showsAction r of
             Inl e \<Rightarrow> Inl e
           | Inr shown \<Rightarrow>
               if shown
               then (case App_actionCard r of
                       Inl e \<Rightarrow> Inl e
                     | Inr actionCard \<Rightarrow>
                         Inr \<lparr>view_caption = (if truthy c then c else None),
                              view_action = Some actionCard\<rparr>)
               else Inr \<lparr>view_caption = (if truthy c then c else None),
                         view_action = None\<rparr>))"

text \<open>
  Which of the cards is on screen. The styled variant shows one right-hand panel: the
  placeholder, else the error, else the results. The plain variant shows the results
  section and the error section independently of each other.
\<close>

datatype panel = EmptyPanel | ErrorPanel "json option" | ResultsPanel results_view

definition Index_rightPanel :: "screen \<Rightarrow> js_error + panel" where
  "Index_rightPanel s =
     (if \<not> truthy (results s) \<and> \<not> truthy (error s) then Inr EmptyPanel
      else if truthy (error s) then Inr (ErrorPanel (error s))
      else (case results s of
              None \<Rightarrow> Inl TypeError
            | Some r \<Rightarrow> (case Index_results r of Inl e \<Rightarrow> Inl e | Inr v \<Rightarrow> Inr (ResultsPanel v))))"

definition App_resultsSection :: "screen \<Rightarrow> js_error + results_view option" where
  "App_resultsSection s =
     (if truthy (results s) \<and> \<not> isLoading s
      then (case results s of
              None \<Rightarrow> Inl TypeError
            | Some r \<Rightarrow> (case App_results r of Inl e \<Rightarrow> Inl e | Inr v \<Rightarrow> Inr (Some v)))
      else Inr None)"

definition App_errorSection :: "screen \<Rightarrow> json option" where
  "App_errorSection s = (if truthy (error s) then error s else None)"

section \<open>Concrete inputs\<close>

text \<open>Files, response bodies and states at which the properties below are evaluated.\<close>

definition pngFile :: File where
  "pngFile = \<lparr>name = ''cat.png'', type = ''image/png'', bytes = [137, 80, 78, 71]\<rparr>"

definition textFile :: File where
  "textFile = \<lparr>name = ''notes.txt'', type = ''text/plain'', bytes = [104, 105]\<rparr>"

text \<open>The freshly mounted screen after the user picked \<open>pngFile\<close>.\<close>

definition withFile :: screen where
  "withFile = Index_handleImageSelect (Some pngFile) initial"

definition captionBody :: json where
  "captionBody = JObj [(''success'', JBool True), (''caption'', JStr ''a dog on a beach'')]"

definition refusedBody :: json where
  "refusedBody = JObj [(''success'', JBool False), (''error'', JStr ''No image provided'')]"

definition emptyErrorBody :: json where
  "emptyErrorBody = JObj [(''success'', JBool False), (''error'', JStr [])]"

definition healthyBody :: json where
  "healthyBody = JObj [(''status'', JStr ''healthy'')]"

definition downBody :: json where
  "downBody = JObj [(''status'', JStr ''down'')]"

text \<open>
  The screen after mount with a healthy service, a picked file and a successful caption
  analysis, in either variant.
\<close>

definition captioned :: screen where
  "captioned =
     Index_run [ImageSelect (Some pngFile), Analyze Caption (Json captionBody)]
       (Index_mount (Json healthyBody))"

definition captioned_App :: screen where
  "captioned_App =
     App_run [ImageSelect (Some pngFile), Analyze Caption (Json captionBody)]
       (App_mount (Json healthyBody))"

text \<open>A flattened action response that carries the label only.\<close>

definition flatNoConfidence :: json where
  "flatNoConfidence = JObj [(''success'', JBool True), (''predicted_action'', JStr ''running'')]"

text \<open>
  The double that the literal \<^verbatim>\<open>87.345\<close> parses to, 87.344999999999998863..., and a combined
  response with that confidence and six predictions.
\<close>

definition confidence345 :: rat where
  "confidence345 = 3073178980099031 / 35184372088832"






section \<open>Vocabulary of the properties\<close>

text \<open>An attempt succeeded: the body was parsed and its \<^verbatim>\<open>success\<close> field is truthy.\<close>

definition succeeded :: "fetched \<Rightarrow> bool" where
  "succeeded outcome =
     (case outcome of
        Json data \<Rightarrow> (case read data ''success'' of Inl e \<Rightarrow> False | Inr v \<Rightarrow> truthy v)
      | _ \<Rightarrow> False)"

text \<open>The file a preview handle resolves to in the registry of a screen.\<close>

fun resolve :: "screen \<Rightarrow> blob_url \<Rightarrow> File option" where
  "resolve s (BlobUrl i) = (if i < length (objectUrls s) then Some (objectUrls s ! i) else None)"

text \<open>
  The step from \<open>s\<close> to \<open>s'\<close> adopted the file \<open>f\<close>: it is the selected file, error and
  result are cleared, and the preview handle is a new one (it resolved to nothing in \<open>s\<close>)
  that resolves to \<open>f\<close>.
\<close>

definition adopted :: "File \<Rightarrow> screen \<Rightarrow> screen \<Rightarrow> bool" where
  "adopted f s s' =
     (selectedFile s' = Some f \<and> error s' = None \<and> results s' = None
      \<and> (\<exists>u. previewUrl s' = Some u \<and> resolve s' u = Some f \<and> resolve s u = None))"

text \<open>A request to the liveness endpoint of the service at \<open>base\<close>.\<close>

fun isHealthRequest :: "string \<Rightarrow> request \<Rightarrow> bool" where
  "isHealthRequest base (Request m u b) = (u = base @ ''/health'')"





section \<open>Facts shared by the properties\<close>

lemma js_error_eq [simp]: "(e :: js_error) = TypeError"
  by (cases e) simp

lemma withFile_eq:
  "withFile = initial\<lparr>selectedFile := Some pngFile, previewUrl := Some (BlobUrl 0),
      objectUrls := [pngFile]\<rparr>"
  by (simp add: withFile_def Index_handleImageSelect_def pngFile_def Index_processFile_def
        initial_def)

lemma captioned_eq:
  "captioned = initial\<lparr>selectedFile := Some pngFile, previewUrl := Some (BlobUrl 0),
      results := Some captionBody, apiHealth := True, objectUrls := [pngFile],
      requests := [Request ''GET'' (Index_API_BASE_URL @ ''/health'') [],
                   Request ''POST'' (Index_API_BASE_URL @ ''/api/caption'') [(''image'', pngFile)]],
      toasts := [ToastSuccess ''Analysis complete!'']\<rparr>"
  by (simp add: captioned_def Index_mount_def Index_checkHealth_def Index_checkHealth_begin_def
        Index_checkHealth_end_def healthyBody_def initial_def Index_handleImageSelect_def
        pngFile_def Index_processFile_def Index_analyzeImage_def Index_analyzeImage_begin_def
        Index_analyzeImage_end_def captionBody_def)

lemma captioned_App_eq:
  "captioned_App = initial\<lparr>selectedFile := Some pngFile, previewUrl := Some (BlobUrl 0),
      results := Some captionBody, apiHealth := True, objectUrls := [pngFile],
      requests := [Request ''GET'' (App_API_BASE_URL @ ''/health'') [],
                   Request ''POST'' (App_API_BASE_URL @ ''/api/caption'') [(''image'', pngFile)]]\<rparr>"
  by (simp add: captioned_App_def App_mount_def App_checkHealth_def App_checkHealth_begin_def
        App_checkHealth_end_def healthyBody_def initial_def App_handleImageSelect_def
        pngFile_def App_processFile_def App_analyzeImage_def App_analyzeImage_begin_def
        App_analyzeImage_end_def captionBody_def)

lemma showsAction_read: "showsAction r = Inr b \<Longrightarrow> \<exists>v. read r k = Inr v"
  by (cases r) (simp_all add: showsAction_def)


section \<open>Dispatch without a file\<close>

text \<open>
  C7. Dispatching analysis while no file is selected only sets the error message: no
  request is issued and every other field of the screen keeps its value, in both variants.
\<close>

theorem analyze_without_file:
  "selectedFile s = None \<Longrightarrow>
     Index_analyzeImage m outcome s = s\<lparr>error := Some (JStr ''Please select an image first'')\<rparr>
     \<and> App_analyzeImage m outcome s = s\<lparr>error := Some (JStr ''Please select an image first'')\<rparr>
     \<and> requests (Index_analyzeImage m outcome s) = requests s
     \<and> requests (App_analyzeImage m outcome s) = requests s"
  by (simp add: Index_analyzeImage_def App_analyzeImage_def)

theorem analyze_without_file_witness:
  "selectedFile initial = None
   \<and> Index_analyzeImage Caption NetworkError initial
       = initial\<lparr>error := Some (JStr ''Please select an image first'')\<rparr>
   \<and> App_analyzeImage Combined NotJson initial
       = initial\<lparr>error := Some (JStr ''Please select an image first'')\<rparr>
   \<and> requests (Index_analyzeImage Caption NetworkError initial) = []
   \<and> requests (App_analyzeImage Combined NotJson initial) = []"
  using analyze_without_file [of initial Caption NetworkError]
        analyze_without_file [of initial Combined NotJson]
  by (simp add: initial_def)

section \<open>The decision on the response\<close>

text \<open>
  C1, as amended. When the outcome of a dispatched analysis arrives, in whatever state
  \<open>s\<close> the screen is by then: if the body can be read and its \<^verbatim>\<open>success\<close> field is truthy,
  the whole body is stored as the result; if \<^verbatim>\<open>success\<close> is falsy, the error is set to the
  body's \<^verbatim>\<open>error\<close> field when that field is truthy and to the fallback
  \<^verbatim>\<open>Analysis failed\<close> when it is absent or falsy; a network error, a body that is not JSON
  and a body that is the JSON value \<^verbatim>\<open>null\<close> set the error to the variant's
  connection-error message. In any state \<open>t\<close> whose error is a non-empty string, that string
  is what the error card holds. With a file selected, the handler as a whole is the
  dispatch followed by this completion.
\<close>

theorem analyze_decision:
  "(read data ''success'' = Inr v \<and> truthy v \<longrightarrow>
      results (Index_analyzeImage_end (Json data) s) = Some data
      \<and> results (App_analyzeImage_end (Json data) s) = Some data)
   \<and> (read data ''success'' = Inr v \<and> \<not> truthy v \<and> read data ''error'' = Inr e \<and> truthy e \<longrightarrow>
      error (Index_analyzeImage_end (Json data) s) = e
      \<and> error (App_analyzeImage_end (Json data) s) = e)
   \<and> (read data ''success'' = Inr v \<and> \<not> truthy v \<and> read data ''error'' = Inr e \<and> \<not> truthy e \<longrightarrow>
      error (Index_analyzeImage_end (Json data) s) = Some (JStr ''Analysis failed'')
      \<and> error (App_analyzeImage_end (Json data) s) = Some (JStr ''Analysis failed''))
   \<and> (outcome = NetworkError \<or> outcome = NotJson \<or> outcome = Json JNull \<longrightarrow>
      error (Index_analyzeImage_end outcome s) = Some (JStr ''Failed to analyze image'')
      \<and> error (App_analyzeImage_end outcome s)
          = Some (JStr ''Failed to analyze image. Ensure Flask server is running.''))
   \<and> (error t = Some (JStr msg) \<and> msg \<noteq> [] \<longrightarrow>
      Index_rightPanel t = Inr (ErrorPanel (Some (JStr msg)))
      \<and> App_errorSection t = Some (JStr msg))
   \<and> (selectedFile s = Some f \<longrightarrow>
      Index_analyzeImage m outcome s
        = Index_analyzeImage_end outcome (Index_analyzeImage_begin m f s)
      \<and> App_analyzeImage m outcome s
        = App_analyzeImage_end outcome (App_analyzeImage_begin m f s))"
proof -
  have te: "truthy e \<Longrightarrow> Some (or_else e d) = e" for e d
    by (cases e) auto
  have nte: "\<not> truthy e \<Longrightarrow> or_else e d = d" for e d
    by (cases e) auto
  have stored: "read data ''success'' = Inr v \<and> truthy v \<longrightarrow>
      results (Index_analyzeImage_end (Json data) s) = Some data
      \<and> results (App_analyzeImage_end (Json data) s) = Some data"
    by (simp add: Index_analyzeImage_end_def App_analyzeImage_end_def)
  have field: "read data ''success'' = Inr v \<and> \<not> truthy v \<and> read data ''error'' = Inr e \<and> truthy e \<longrightarrow>
      error (Index_analyzeImage_end (Json data) s) = e
      \<and> error (App_analyzeImage_end (Json data) s) = e"
    by (simp add: Index_analyzeImage_end_def App_analyzeImage_end_def te)
  have fallback: "read data ''success'' = Inr v \<and> \<not> truthy v \<and> read data ''error'' = Inr e \<and> \<not> truthy e \<longrightarrow>
      error (Index_analyzeImage_end (Json data) s) = Some (JStr ''Analysis failed'')
      \<and> error (App_analyzeImage_end (Json data) s) = Some (JStr ''Analysis failed'')"
    by (simp add: Index_analyzeImage_end_def App_analyzeImage_end_def nte)
  have transport: "outcome = NetworkError \<or> outcome = NotJson \<or> outcome = Json JNull \<longrightarrow>
      error (Index_analyzeImage_end outcome s) = Some (JStr ''Failed to analyze image'')
      \<and> error (App_analyzeImage_end outcome s)
          = Some (JStr ''Failed to analyze image. Ensure Flask server is running.'')"
    by (auto simp: Index_analyzeImage_end_def App_analyzeImage_end_def
          Index_analyzeImage_catch_def App_analyzeImage_catch_def)
  have shown: "error t = Some (JStr msg) \<and> msg \<noteq> [] \<longrightarrow>
      Index_rightPanel t = Inr (ErrorPanel (Some (JStr msg)))
      \<and> App_errorSection t = Some (JStr msg)"
    by (simp add: Index_rightPanel_def App_errorSection_def)
  have whole: "selectedFile s = Some f \<longrightarrow>
      Index_analyzeImage m outcome s
        = Index_analyzeImage_end outcome (Index_analyzeImage_begin m f s)
      \<and> App_analyzeImage m outcome s
        = App_analyzeImage_end outcome (App_analyzeImage_begin m f s)"
    by (simp add: Index_analyzeImage_def App_analyzeImage_def)
  from stored field fallback transport shown whole show ?thesis
    by (intro conjI)
qed

text \<open>
  As the specification words it, the property fails at two concrete bodies: with an
  \<^verbatim>\<open>error\<close> field that is present but empty the fallback is shown, not the field; and
  the body \<^verbatim>\<open>null\<close>, which parses as JSON, gives the connection-error message, not the
  fallback.
\<close>

theorem analyze_decision_counterexample:
  "selectedFile withFile = Some pngFile
   \<and> read emptyErrorBody ''error'' = Inr (Some (JStr []))
   \<and> error (Index_analyzeImage Caption (Json emptyErrorBody) withFile) = Some (JStr ''Analysis failed'')
   \<and> error (Index_analyzeImage Caption (Json emptyErrorBody) withFile) \<noteq> Some (JStr [])
   \<and> error (Index_analyzeImage Caption (Json JNull) withFile) = Some (JStr ''Failed to analyze image'')
   \<and> error (Index_analyzeImage Caption (Json JNull) withFile) \<noteq> Some (JStr ''Analysis failed'')"
  by (simp add: withFile_eq initial_def emptyErrorBody_def Index_analyzeImage_def
        Index_analyzeImage_end_def Index_analyzeImage_begin_def Index_analyzeImage_catch_def)

text \<open>
  The four branches on the screen with the picked file, each for the handler as a whole,
  and the error card after the refusal and after the transport failure.
\<close>

theorem analyze_decision_witness:
  "results (Index_analyzeImage Caption (Json captionBody) withFile) = Some captionBody
   \<and> results (App_analyzeImage Caption (Json captionBody) withFile) = Some captionBody
   \<and> error (Index_analyzeImage Action (Json refusedBody) withFile) = Some (JStr ''No image provided'')
   \<and> Index_rightPanel (Index_analyzeImage Action (Json refusedBody) withFile)
       = Inr (ErrorPanel (Some (JStr ''No image provided'')))
   \<and> error (App_analyzeImage Action (Json emptyErrorBody) withFile) = Some (JStr ''Analysis failed'')
   \<and> error (Index_analyzeImage Combined NotJson withFile) = Some (JStr ''Failed to analyze image'')
   \<and> App_errorSection (App_analyzeImage Combined NotJson withFile)
       = Some (JStr ''Failed to analyze image. Ensure Flask server is running.'')"
proof -
  have f: "selectedFile withFile = Some pngFile"
    by (simp add: withFile_eq)
  have b: "read captionBody ''success'' = Inr (Some (JBool True))"
    "read refusedBody ''success'' = Inr (Some (JBool False))"
    "read refusedBody ''error'' = Inr (Some (JStr ''No image provided''))"
    "read emptyErrorBody ''success'' = Inr (Some (JBool False))"
    "read emptyErrorBody ''error'' = Inr (Some (JStr []))"
    by (simp_all add: captionBody_def refusedBody_def emptyErrorBody_def)
  show ?thesis
    using f b
      analyze_decision [where data = captionBody and v = "Some (JBool True)"
        and s = "Index_analyzeImage_begin Caption pngFile withFile" and e = None
        and outcome = "Json captionBody" and t = withFile and msg = "[]" and m = Caption
        and f = pngFile]
      analyze_decision [where data = captionBody and v = "Some (JBool True)"
        and s = "App_analyzeImage_begin Caption pngFile withFile" and e = None
        and outcome = "Json captionBody" and t = withFile and msg = "[]" and m = Caption
        and f = pngFile]
      analyze_decision [where s = withFile and f = pngFile and m = Caption
        and outcome = "Json captionBody" and data = captionBody and v = None and e = None
        and t = withFile and msg = "[]"]
      analyze_decision [where data = refusedBody and v = "Some (JBool False)"
        and e = "Some (JStr ''No image provided'')"
        and s = "Index_analyzeImage_begin Action pngFile withFile"
        and outcome = "Json refusedBody"
        and t = "Index_analyzeImage Action (Json refusedBody) withFile"
        and msg = "''No image provided''" and m = Action and f = pngFile]
      analyze_decision [where s = withFile and f = pngFile and m = Action
        and outcome = "Json refusedBody" and data = captionBody and v = None and e = None
        and t = withFile and msg = "[]"]
      analyze_decision [where data = emptyErrorBody and v = "Some (JBool False)"
        and e = "Some (JStr [])" and s = "App_analyzeImage_begin Action pngFile withFile"
        and outcome = "Json emptyErrorBody" and t = withFile and msg = "[]" and m = Action
        and f = pngFile]
      analyze_decision [where s = withFile and f = pngFile and m = Action
        and outcome = "Json emptyErrorBody" and data = captionBody and v = None and e = None
        and t = withFile and msg = "[]"]
      analyze_decision [where outcome = NotJson
        and s = "Index_analyzeImage_begin Combined pngFile withFile" and data = captionBody
        and v = None and e = None and t = withFile and msg = "[]" and m = Combined
        and f = pngFile]
      analyze_decision [where outcome = NotJson
        and s = "App_analyzeImage_begin Combined pngFile withFile" and data = captionBody
        and v = None and e = None
        and t = "App_analyzeImage Combined NotJson withFile"
        and msg = "''Failed to analyze image. Ensure Flask server is running.''"
        and m = Combined and f = pngFile]
      analyze_decision [where s = withFile and f = pngFile and m = Combined
        and outcome = NotJson and data = captionBody and v = None and e = None
        and t = withFile and msg = "[]"]
    by simp
qed

section \<open>A failed attempt and the stored result\<close>

text \<open>
  C2, as amended. A failed attempt (transport failure, or a body whose \<^verbatim>\<open>success\<close> is
  falsy or cannot be read) leaves the stored result exactly as it was: unset if it was
  unset, the earlier result if one was stored. This holds for the handler as a whole and
  for its completion from any state the screen is in when the outcome arrives.
\<close>

theorem failed_analysis_keeps_results:
  "\<not> succeeded outcome \<Longrightarrow>
     results (Index_analyzeImage m outcome s) = results s
     \<and> results (App_analyzeImage m outcome s) = results s
     \<and> results (Index_analyzeImage_end outcome s) = results s
     \<and> results (App_analyzeImage_end outcome s) = results s"
  by (auto simp: succeeded_def Index_analyzeImage_def Index_analyzeImage_end_def
        Index_analyzeImage_begin_def Index_analyzeImage_catch_def App_analyzeImage_def
        App_analyzeImage_end_def App_analyzeImage_begin_def App_analyzeImage_catch_def
      split: fetched.splits sum.splits option.splits)

text \<open>
  After a successful caption analysis a second, failing analysis ends with the caption
  result still stored; the plain variant then shows that result and the error together.
\<close>

theorem stale_results_after_failure:
  "results (Index_analyzeImage Action NetworkError captioned) = Some captionBody
   \<and> results (Index_analyzeImage Action NetworkError captioned) \<noteq> None
   \<and> results (App_analyzeImage Action (Json refusedBody) captioned_App) \<noteq> None
   \<and> App_resultsSection (App_analyzeImage Action (Json refusedBody) captioned_App)
       = Inr (Some \<lparr>view_caption = Some (JStr ''a dog on a beach''), view_action = None\<rparr>)
   \<and> App_errorSection (App_analyzeImage Action (Json refusedBody) captioned_App)
       = Some (JStr ''No image provided'')"
  by (simp add: captioned_eq captioned_App_eq initial_def Index_analyzeImage_def
        Index_analyzeImage_begin_def Index_analyzeImage_end_def Index_analyzeImage_catch_def
        App_analyzeImage_def App_analyzeImage_begin_def App_analyzeImage_end_def
        refusedBody_def captionBody_def App_resultsSection_def App_errorSection_def
        App_results_def showsAction_def)

theorem failed_analysis_keeps_results_witness:
  "\<not> succeeded (Json refusedBody)
   \<and> results (Index_analyzeImage Action (Json refusedBody) withFile) = None
   \<and> results (App_analyzeImage Action (Json refusedBody) captioned_App) = Some captionBody"
  using failed_analysis_keeps_results [of "Json refusedBody" Action withFile]
        failed_analysis_keeps_results [of "Json refusedBody" Action captioned_App]
  by (simp add: succeeded_def refusedBody_def withFile_eq initial_def captioned_App_eq)

section \<open>Rejecting a file that is not an image\<close>

text \<open>
  C3, as amended. For a file whose media type does not begin with \<^verbatim>\<open>image/\<close>: the file
  picker sets the error and changes nothing else (the styled variant also raises a
  notification), so the selected file, the preview handle and the request log are as
  before. A drop, which only the styled variant handles, leaves the selected file, the
  preview handle, the stored result, the loading and connectivity flags and the request
  log as they were, turns the drag highlight off and raises a notification.
\<close>

theorem reject_non_image:
  "\<not> prefix ''image/'' (type f) \<Longrightarrow>
     Index_handleImageSelect (Some f) s
       = s\<lparr>error := Some (JStr ''Please select a valid image file''),
           toasts := toasts s @ [ToastError ''Invalid file type'']\<rparr>
     \<and> App_handleImageSelect (Some f) s
       = s\<lparr>error := Some (JStr ''Please select a valid image file'')\<rparr>
     \<and> selectedFile (Index_handleDrop (Some f) s) = selectedFile s
     \<and> previewUrl (Index_handleDrop (Some f) s) = previewUrl s
     \<and> results (Index_handleDrop (Some f) s) = results s
     \<and> isLoading (Index_handleDrop (Some f) s) = isLoading s
     \<and> apiHealth (Index_handleDrop (Some f) s) = apiHealth s
     \<and> fileInputRef (Index_handleDrop (Some f) s) = fileInputRef s
     \<and> objectUrls (Index_handleDrop (Some f) s) = objectUrls s
     \<and> requests (Index_handleDrop (Some f) s) = requests s
     \<and> \<not> isDragging (Index_handleDrop (Some f) s)
     \<and> toasts (Index_handleDrop (Some f) s)
         = toasts s @ [ToastError ''Please drop a valid image file'']"
  by (simp add: Index_handleImageSelect_def App_handleImageSelect_def Index_handleDrop_def)

text \<open>
  Dropping a text file on the highlighted drop zone sets no error, and it does change
  another state field, the highlight.
\<close>

theorem drop_non_image_sets_no_error:
  "error (Index_handleDrop (Some textFile) (initial\<lparr>isDragging := True\<rparr>)) = None
   \<and> isDragging (Index_handleDrop (Some textFile) (initial\<lparr>isDragging := True\<rparr>))
       \<noteq> isDragging (initial\<lparr>isDragging := True\<rparr>)"
  by (simp add: Index_handleDrop_def textFile_def initial_def)

theorem reject_non_image_witness:
  "\<not> prefix ''image/'' (type textFile)
   \<and> error (Index_handleImageSelect (Some textFile) initial)
       = Some (JStr ''Please select a valid image file'')
   \<and> error (App_handleImageSelect (Some textFile) initial)
       = Some (JStr ''Please select a valid image file'')
   \<and> selectedFile (Index_handleDrop (Some textFile) initial) = None
   \<and> requests (Index_handleDrop (Some textFile) initial) = []"
  using reject_non_image [of textFile initial]
  by (simp add: textFile_def initial_def)

section \<open>Adopting a file\<close>

text \<open>
  C4. Every way of adopting a valid image (picked or dropped with an image media type,
  loaded as the sample, or handed to \<^verbatim>\<open>processFile\<close> directly) stores it as the selected
  file, clears the error and the stored result, and sets a new preview handle that
  resolves to the file.
\<close>

theorem adopt_file:
  "prefix ''image/'' (type f) \<Longrightarrow>
     adopted f s (Index_handleImageSelect (Some f) s)
     \<and> adopted f s (Index_handleDrop (Some f) s)
     \<and> adopted f s (App_handleImageSelect (Some f) s)
     \<and> adopted \<lparr>name = ''sample.jpg'', type = ''image/jpeg'', bytes = b\<rparr> s
          (Index_loadSampleImage (Some b) s)
     \<and> adopted \<lparr>name = ''sample.jpg'', type = ''image/jpeg'', bytes = b\<rparr> s
          (App_loadSampleImage (Some b) s)
     \<and> adopted f s (Index_processFile f s)
     \<and> adopted f s (App_processFile f s)"
  by (simp add: adopted_def Index_processFile_def App_processFile_def Index_handleImageSelect_def
        Index_handleDrop_def App_handleImageSelect_def Index_loadSampleImage_def
        Index_loadSampleImage_begin_def Index_loadSampleImage_end_def App_loadSampleImage_def
        App_loadSampleImage_begin_def App_loadSampleImage_end_def)

theorem adopt_file_witness:
  "prefix ''image/'' (type pngFile)
   \<and> error (Index_analyzeImage Action NetworkError captioned) = Some (JStr ''Failed to analyze image'')
   \<and> results (Index_analyzeImage Action NetworkError captioned) = Some captionBody
   \<and> adopted pngFile (Index_analyzeImage Action NetworkError captioned)
        (Index_handleImageSelect (Some pngFile) (Index_analyzeImage Action NetworkError captioned))
   \<and> previewUrl (Index_handleImageSelect (Some pngFile)
        (Index_analyzeImage Action NetworkError captioned)) = Some (BlobUrl 1)"
  using adopt_file [of pngFile "Index_analyzeImage Action NetworkError captioned" "[]"]
  by (simp add: pngFile_def Index_handleImageSelect_def Index_processFile_def
        captioned_eq initial_def Index_analyzeImage_def Index_analyzeImage_begin_def
        Index_analyzeImage_end_def Index_analyzeImage_catch_def)

section \<open>Reset\<close>

text \<open>
  C5, as amended. From every state, reset clears the selected file, the preview handle,
  the stored result and the error, and empties the value of the file input when the input
  element is mounted. It leaves the loading flag, the connectivity flag and the drag
  highlight as they were. Both variants reset in the same way.
\<close>

theorem reset_clears:
  "selectedFile (Index_resetAnalysis s) = None
   \<and> previewUrl (Index_resetAnalysis s) = None
   \<and> results (Index_resetAnalysis s) = None
   \<and> error (Index_resetAnalysis s) = None
   \<and> fileInputRef (Index_resetAnalysis s) = (if fileInputRef s = None then None else Some [])
   \<and> isLoading (Index_resetAnalysis s) = isLoading s
   \<and> apiHealth (Index_resetAnalysis s) = apiHealth s
   \<and> isDragging (Index_resetAnalysis s) = isDragging s
   \<and> App_resetAnalysis s = Index_resetAnalysis s"
  by (simp add: Index_resetAnalysis_def App_resetAnalysis_def Let_def split: option.split)

text \<open>
  With the service healthy and an analysis in flight, reset leaves connectivity and the
  loading flag on, so the screen is not back at its initial values.
\<close>

theorem reset_keeps_health_and_loading:
  "apiHealth (Index_resetAnalysis (Index_analyzeImage_begin Action pngFile captioned)) = True
   \<and> apiHealth initial = False
   \<and> isLoading (Index_resetAnalysis (Index_analyzeImage_begin Action pngFile captioned)) = True
   \<and> isLoading initial = False
   \<and> Index_resetAnalysis (Index_analyzeImage_begin Action pngFile captioned) \<noteq> initial"
proof -
  have a: "apiHealth (Index_resetAnalysis (Index_analyzeImage_begin Action pngFile captioned)) = True"
    by (simp add: captioned_eq Index_resetAnalysis_def Index_analyzeImage_begin_def initial_def)
  have b: "apiHealth initial = False"
    by (simp add: initial_def)
  have c: "isLoading (Index_resetAnalysis (Index_analyzeImage_begin Action pngFile captioned)) = True"
    by (simp add: captioned_eq Index_resetAnalysis_def Index_analyzeImage_begin_def initial_def)
  have d: "isLoading initial = False"
    by (simp add: initial_def)
  from a b have "Index_resetAnalysis (Index_analyzeImage_begin Action pngFile captioned) \<noteq> initial"
    by metis
  with a b c d show ?thesis by simp
qed

section \<open>The health probe\<close>

lemma endpoint_not_health: "endpoint m \<noteq> ''/health''"
  by (cases m) simp_all

lemma sample_not_health:
  "sampleImageUrl \<noteq> Index_API_BASE_URL @ ''/health''"
  "sampleImageUrl \<noteq> App_API_BASE_URL @ ''/health''"
  by (simp_all add: sampleImageUrl_def Index_API_BASE_URL_def App_API_BASE_URL_def)

text \<open>No handler the user can trigger touches connectivity or calls the liveness endpoint.\<close>

lemma Index_step_health:
  "apiHealth (Index_step e s) = apiHealth s
   \<and> filter (isHealthRequest Index_API_BASE_URL) (requests (Index_step e s))
       = filter (isHealthRequest Index_API_BASE_URL) (requests s)"
  by (cases e)
     (auto simp: Index_handleImageSelect_def Index_processFile_def Index_handleDrop_def Let_def
        Index_loadSampleImage_def Index_loadSampleImage_begin_def Index_loadSampleImage_end_def
        Index_analyzeImage_def Index_analyzeImage_begin_def Index_analyzeImage_end_def
        Index_analyzeImage_catch_def Index_resetAnalysis_def endpoint_not_health sample_not_health
      split: option.splits fetched.splits sum.splits)

lemma App_step_health:
  "apiHealth (App_step e s) = apiHealth s
   \<and> filter (isHealthRequest App_API_BASE_URL) (requests (App_step e s))
       = filter (isHealthRequest App_API_BASE_URL) (requests s)"
  by (cases e)
     (auto simp: App_handleImageSelect_def App_processFile_def Let_def
        App_loadSampleImage_def App_loadSampleImage_begin_def App_loadSampleImage_end_def
        App_analyzeImage_def App_analyzeImage_begin_def App_analyzeImage_end_def
        App_analyzeImage_catch_def App_resetAnalysis_def endpoint_not_health sample_not_health
      split: option.splits fetched.splits sum.splits)

lemma Index_run_health:
  "apiHealth (Index_run es s) = apiHealth s
   \<and> filter (isHealthRequest Index_API_BASE_URL) (requests (Index_run es s))
       = filter (isHealthRequest Index_API_BASE_URL) (requests s)"
  by (induction es arbitrary: s) (simp_all add: Index_step_health)

lemma App_run_health:
  "apiHealth (App_run es s) = apiHealth s
   \<and> filter (isHealthRequest App_API_BASE_URL) (requests (App_run es s))
       = filter (isHealthRequest App_API_BASE_URL) (requests s)"
  by (induction es arbitrary: s) (simp_all add: App_step_health)

lemma Index_mount_health:
  "apiHealth (Index_mount outcome)
     = (\<exists>data. outcome = Json data \<and> read data ''status'' = Inr (Some (JStr ''healthy'')))"
  "requests (Index_mount outcome) = [Request ''GET'' (Index_API_BASE_URL @ ''/health'') []]"
  by (auto simp: Index_mount_def Index_checkHealth_def Index_checkHealth_begin_def
        Index_checkHealth_end_def initial_def split: fetched.splits sum.splits)

lemma App_mount_health:
  "apiHealth (App_mount outcome)
     = (\<exists>data. outcome = Json data \<and> read data ''status'' = Inr (Some (JStr ''healthy'')))"
  "requests (App_mount outcome) = [Request ''GET'' (App_API_BASE_URL @ ''/health'') []]"
  by (auto simp: App_mount_def App_checkHealth_def App_checkHealth_begin_def
        App_checkHealth_end_def initial_def split: fetched.splits sum.splits)

lemma Index_checkHealth_end_health:
  "\<not> apiHealth s \<Longrightarrow>
     apiHealth (Index_checkHealth_end outcome s)
       = (\<exists>data. outcome = Json data \<and> read data ''status'' = Inr (Some (JStr ''healthy'')))"
  by (auto simp: Index_checkHealth_end_def split: fetched.splits sum.splits)

lemma Index_checkHealth_end_requests:
  "requests (Index_checkHealth_end outcome s) = requests s"
  by (auto simp: Index_checkHealth_end_def split: fetched.splits sum.splits)

lemma App_checkHealth_end_health:
  "\<not> apiHealth s \<Longrightarrow>
     apiHealth (App_checkHealth_end outcome s)
       = (\<exists>data. outcome = Json data \<and> read data ''status'' = Inr (Some (JStr ''healthy'')))"
  by (auto simp: App_checkHealth_end_def split: fetched.splits sum.splits)

lemma App_checkHealth_end_requests:
  "requests (App_checkHealth_end outcome s) = requests s"
  by (auto simp: App_checkHealth_end_def split: fetched.splits sum.splits)

lemma checkHealth_begin_health:
  "\<not> apiHealth (Index_checkHealth_begin initial)"
  "requests (Index_checkHealth_begin initial) = [Request ''GET'' (Index_API_BASE_URL @ ''/health'') []]"
  "\<not> apiHealth (App_checkHealth_begin initial)"
  "requests (App_checkHealth_begin initial) = [Request ''GET'' (App_API_BASE_URL @ ''/health'') []]"
  by (simp_all add: Index_checkHealth_begin_def App_checkHealth_begin_def initial_def)

text \<open>
  C8. The probe is issued when the component mounts. Whatever the user does before its
  outcome arrives (\<open>before\<close>) and after (\<open>after\<close>), connectivity ends up true exactly when
  the response parsed as JSON with \<^verbatim>\<open>status\<close> equal to \<^verbatim>\<open>healthy\<close> (so it is false after a
  network or parse failure and for any other status), and the request log holds exactly
  one call to the liveness endpoint, the one issued at mount.
\<close>

theorem health_probe_once:
  "apiHealth (Index_run after (Index_checkHealth_end outcome
       (Index_run before (Index_checkHealth_begin initial))))
     = (\<exists>data. outcome = Json data \<and> read data ''status'' = Inr (Some (JStr ''healthy'')))
   \<and> filter (isHealthRequest Index_API_BASE_URL)
       (requests (Index_run after (Index_checkHealth_end outcome
          (Index_run before (Index_checkHealth_begin initial)))))
     = [Request ''GET'' (Index_API_BASE_URL @ ''/health'') []]
   \<and> apiHealth (App_run after (App_checkHealth_end outcome
       (App_run before (App_checkHealth_begin initial))))
     = (\<exists>data. outcome = Json data \<and> read data ''status'' = Inr (Some (JStr ''healthy'')))
   \<and> filter (isHealthRequest App_API_BASE_URL)
       (requests (App_run after (App_checkHealth_end outcome
          (App_run before (App_checkHealth_begin initial)))))
     = [Request ''GET'' (App_API_BASE_URL @ ''/health'') []]"
proof -
  have i: "\<not> apiHealth (Index_run before (Index_checkHealth_begin initial))"
    by (simp add: Index_run_health checkHealth_begin_health)
  have a: "\<not> apiHealth (App_run before (App_checkHealth_begin initial))"
    by (simp add: App_run_health checkHealth_begin_health)
  show ?thesis
    by (simp add: Index_run_health App_run_health Index_checkHealth_end_health [OF i]
          App_checkHealth_end_health [OF a] Index_checkHealth_end_requests
          App_checkHealth_end_requests checkHealth_begin_health)
qed

text \<open>The scenario of the specification: the probe answers \<^verbatim>\<open>{status: "down"}\<close>.\<close>

lemma health_down:
  "\<not> apiHealth (Index_run es (Index_mount (Json downBody)))"
  "\<not> apiHealth (App_run es (App_mount (Json downBody)))"
  by (simp_all add: Index_run_health App_run_health Index_mount_health App_mount_health
        downBody_def)

section \<open>The ranked list\<close>

















section \<open>Missing action fields\<close>

text \<open>
  C10. When the action card is shown but the confidence or the prediction list it resolves
  to is absent, building the result markup throws in both variants. The response
  \<^verbatim>\<open>{success: true, predicted_action: "running"}\<close> is such a result: it is accepted and
  stored, and rendering it throws.
\<close>

theorem missing_fields_throw:
  assumes "showsAction r = Inr True"
    and "actionField r ''confidence'' = Inr None \<or> actionField r ''all_predictions'' = Inr None"
  shows "Index_results r = Inl TypeError \<and> App_results r = Inl TypeError"
proof -
  obtain c where c: "read r ''caption'' = Inr c"
    using showsAction_read [OF assms(1)] by blast
  have i: "Index_actionCard r = Inl TypeError"
    using assms(2) by (auto simp: Index_actionCard_def split: sum.splits)
  have a: "App_actionCard r = Inl TypeError"
    using assms(2) by (auto simp: App_actionCard_def split: sum.splits)
  show ?thesis
    using assms(1) c i a by (simp add: Index_results_def App_results_def)
qed

theorem missing_fields_throw_witness:
  "showsAction flatNoConfidence = Inr True
   \<and> actionField flatNoConfidence ''confidence'' = Inr None
   \<and> results (Index_analyzeImage Action (Json flatNoConfidence) withFile) = Some flatNoConfidence
   \<and> Index_rightPanel (Index_analyzeImage Action (Json flatNoConfidence) withFile) = Inl TypeError
   \<and> App_resultsSection (App_analyzeImage Action (Json flatNoConfidence) withFile) = Inl TypeError"
proof -
  have s: "showsAction flatNoConfidence = Inr True"
    by (simp add: showsAction_def flatNoConfidence_def)
  have c: "actionField flatNoConfidence ''confidence'' = Inr None"
    by (simp add: actionField_def flatNoConfidence_def)
  have f: "selectedFile withFile = Some pngFile" "error withFile = None"
    by (simp_all add: withFile_eq initial_def)
  have t: "truthy (Some flatNoConfidence)"
    "read flatNoConfidence ''success'' = Inr (Some (JBool True))"
    by (simp_all add: flatNoConfidence_def)
  have ri: "results (Index_analyzeImage Action (Json flatNoConfidence) withFile) = Some flatNoConfidence"
    "error (Index_analyzeImage Action (Json flatNoConfidence) withFile) = None"
    using f t
    by (simp_all add: Index_analyzeImage_def Index_analyzeImage_begin_def Index_analyzeImage_end_def)
  have ra: "results (App_analyzeImage Action (Json flatNoConfidence) withFile) = Some flatNoConfidence"
    "\<not> isLoading (App_analyzeImage Action (Json flatNoConfidence) withFile)"
    using f t
    by (simp_all add: App_analyzeImage_def App_analyzeImage_begin_def App_analyzeImage_end_def)
  show ?thesis
    using missing_fields_throw [of flatNoConfidence] s c ri ra t(1)
    by (simp add: Index_rightPanel_def App_resultsSection_def)
qed

section \<open>Rounding of the confidence\<close>


text \<open>
  Independently of \<open>nearest_double\<close>: \<open>confidence345\<close> is a double (a 53-bit integer times
  \<open>2\<^sup>-\<^sup>4\<^sup>6\<close>), it lies below 87.345, and it is closer to 87.345 than half the spacing
  of the doubles around it.
\<close>

lemma confidence345_below: "confidence345 < 87345 / 1000"
  by (simp add: confidence345_def)

lemma confidence345_nearest:
  "confidence345 = 6146357960198062 / 2 ^ 46"
  "(2 :: int) ^ 52 \<le> 6146357960198062" "(6146357960198062 :: int) < 2 ^ 53"
  "\<bar>87345 / 1000 - confidence345\<bar> < 1 / 2 ^ 47"
  by (simp_all add: confidence345_def)





end
